theory Spec2Isabelle
  imports Main
begin

section \<open>Python strings and dictionaries\<close>

text \<open>
  \<^verbatim>\<open>str.split(sep)\<close> for a non-empty separator: the string is scanned from the left and cut
  at every non-overlapping occurrence of the separator; the result always has at least one
  element. The accumulator holds the current piece, reversed.
\<close>

fun str_split_aux :: "string \<Rightarrow> string \<Rightarrow> string \<Rightarrow> string list" where
  "str_split_aux sep acc [] = [rev acc]"
| "str_split_aux sep acc (c # cs) =
     (if sep \<noteq> [] \<and> take (length sep) (c # cs) = sep
      then rev acc # str_split_aux sep [] (drop (length sep) (c # cs))
      else str_split_aux sep (c # acc) cs)"

definition str_split :: "string \<Rightarrow> string \<Rightarrow> string list" where
  "str_split sep s = str_split_aux sep [] s"

text \<open>\<^verbatim>\<open>sep.join(parts)\<close>.\<close>

fun join :: "string \<Rightarrow> string list \<Rightarrow> string" where
  "join sep [] = []"
| "join sep [x] = x"
| "join sep (x # y # ys) = x @ sep @ join sep (y # ys)"

text \<open>\<^verbatim>\<open>s.startswith(p)\<close>.\<close>

definition startswith :: "string \<Rightarrow> string \<Rightarrow> bool" where
  "startswith s p = (take (length p) s = p)"

text \<open>
  A Python \<^verbatim>\<open>dict\<close> keeps its keys in insertion order; assigning to a key that is present
  replaces the value in place, assigning to a new key appends it.
\<close>

type_synonym ('k, 'v) dict = "('k \<times> 'v) list"

fun dict_set :: "'k \<Rightarrow> 'v \<Rightarrow> ('k, 'v) dict \<Rightarrow> ('k, 'v) dict" where
  "dict_set k v [] = [(k, v)]"
| "dict_set k v ((k', v') # d) =
     (if k = k' then (k, v) # d else (k', v') # dict_set k v d)"

definition dict_get :: "('k, 'v) dict \<Rightarrow> 'k \<Rightarrow> 'v option" where
  "dict_get d k = map_of d k"

definition keys :: "('k, 'v) dict \<Rightarrow> 'k list" where
  "keys d = map fst d"

text \<open>\<^verbatim>\<open>dict(items)\<close>: the items are assigned one after the other.\<close>

definition dict_of_items :: "('k \<times> 'v) list \<Rightarrow> ('k, 'v) dict" where
  "dict_of_items items = foldl (\<lambda>d (k, v). dict_set k v d) [] items"

section \<open>Errors\<close>

text \<open>\<^verbatim>\<open>app/core/utils/enums.py\<close>, \<^verbatim>\<open>ApplicationErrors\<close>: each member carries a code (its value) and a message.\<close>

datatype ApplicationErrors =
    TOKEN_REQUIRED | TOKEN_INVALID | TOKEN_DENIED | TOKEN_EXPIRED
  | HEADER_ATTRIBUTE_MISSING | HEADER_ATTRIBUTE_INVALID
  | ENDPOINT_NOT_IMPLEMENTED | ENDPOINT_OPERATION_DENIED
  | VALIDATION_ERROR | CUSTOM_ERROR

fun error_code :: "ApplicationErrors \<Rightarrow> string" where
  "error_code TOKEN_REQUIRED = ''TOKEN.REQUIRED''"
| "error_code TOKEN_INVALID = ''TOKEN.INVALID''"
| "error_code TOKEN_DENIED = ''TOKEN.DENIED''"
| "error_code TOKEN_EXPIRED = ''TOKEN.EXPIRED''"
| "error_code HEADER_ATTRIBUTE_MISSING = ''HEADER.ATTRIBUTE.MISSING''"
| "error_code HEADER_ATTRIBUTE_INVALID = ''HEADER.ATTRIBUTE.INVALID''"
| "error_code ENDPOINT_NOT_IMPLEMENTED = ''ENDPOINT.NOT.IMPLEMENTED''"
| "error_code ENDPOINT_OPERATION_DENIED = ''ENDPOINT.OPERATION.RESTRICTED''"
| "error_code VALIDATION_ERROR = ''validation_error''"
| "error_code CUSTOM_ERROR = ''custom_error''"

fun error_message :: "ApplicationErrors \<Rightarrow> string" where
  "error_message TOKEN_REQUIRED = ''Access token is required. Modify your request and try again.''"
| "error_message TOKEN_INVALID = ''Access token is invalid. Please provide a valid token and try again.''"
| "error_message TOKEN_DENIED = ''Access token is denied. The user does not exist or is suspended.''"
| "error_message TOKEN_EXPIRED = ''Your access token has expired. Try again with a valid token.''"
| "error_message HEADER_ATTRIBUTE_MISSING = ''A required header parameter is missing.''"
| "error_message HEADER_ATTRIBUTE_INVALID = ''The header parameter provided is invalid.''"
| "error_message ENDPOINT_NOT_IMPLEMENTED = ''The requested endpoint is not yet implemented.''"
| "error_message ENDPOINT_OPERATION_DENIED =
     ''This activity cannot be carried out because the endpoint is restricted''"
| "error_message VALIDATION_ERROR = ''invalid parameter''"
| "error_message CUSTOM_ERROR = ''invalid parameter''"

text \<open>
  The \<^verbatim>\<open>detail\<close> of an \<^verbatim>\<open>HTTPException\<close> is, in this repository, a list of
  \<^verbatim>\<open>dict(type, code, loc, msg)\<close>, a \<^verbatim>\<open>dict(code, message)\<close>, or a plain string.
\<close>

datatype error_entry =
  Error_entry (entry_type: string) (entry_code: string) (entry_loc: "string list") (entry_msg: string)

datatype detail =
    Detail_list "error_entry list"
  | Detail_dict (detail_code: string) (detail_message: string)
  | Detail_str string

text \<open>Every exception the modelled code can raise.\<close>

datatype error =
    IndexError
  | TypeError
  | AttributeError
  | ZeroDivisionError
  | ValidationError
  | ExpiredSignatureError
  | InvalidSignatureError
  | RequestValidationError
  | HTTPException (status_code: nat) (exc_detail: detail)

section \<open>Filter operators\<close>

text \<open>\<^verbatim>\<open>app/core/utils/enums.py\<close>, \<^verbatim>\<open>Operators\<close>.\<close>

datatype Operators =
    GREATER_THAN | LESS_THAN | GREATER_OR_EQUAL | LESS_OR_EQUAL | EQUAL | NOT_EQUAL
  | IN | NIN | BTW | CONTAINS | MATCHES

fun operator_value :: "Operators \<Rightarrow> string" where
  "operator_value GREATER_THAN = ''$gt''"
| "operator_value LESS_THAN = ''$lt''"
| "operator_value GREATER_OR_EQUAL = ''$gte''"
| "operator_value LESS_OR_EQUAL = ''$lte''"
| "operator_value EQUAL = ''$eq''"
| "operator_value NOT_EQUAL = ''$ne''"
| "operator_value IN = ''$in''"
| "operator_value NIN = ''$nin''"
| "operator_value BTW = ''$btw''"
| "operator_value CONTAINS = ''$has''"
| "operator_value MATCHES = ''$is''"

definition all_operators :: "Operators list" where
  "all_operators = [GREATER_THAN, LESS_THAN, GREATER_OR_EQUAL, LESS_OR_EQUAL, EQUAL, NOT_EQUAL,
                    IN, NIN, BTW, CONTAINS, MATCHES]"

text \<open>
  Validation of a string against the enum (\<^verbatim>\<open>op: Operators\<close> in \<^verbatim>\<open>FilterByAttribute\<close>):
  the member whose value is the string, if there is one.
\<close>

definition operator_of_value :: "string \<Rightarrow> Operators option" where
  "operator_of_value s = find (\<lambda>x. operator_value x = s) all_operators"

text \<open>
  A filter value after parsing: a scalar, a list (\<^verbatim>\<open>$in\<close>, \<^verbatim>\<open>$nin\<close>), or the dictionary
  \<^verbatim>\<open>{min, max}\<close> of a \<^verbatim>\<open>$btw\<close> filter.
\<close>

datatype 'v fvalue = Single 'v | Values "'v list" | MinMax 'v 'v

text \<open>\<^verbatim>\<open>Operators.format_args\<close>: subscripting anything but the dictionary is a \<^verbatim>\<open>TypeError\<close>.\<close>

fun format_args :: "Operators \<Rightarrow> 'v fvalue \<Rightarrow> error + (string, 'v fvalue) dict" where
  "format_args BTW (MinMax lo hi) = Inr [(''$gte'', Single lo), (''$lt'', Single hi)]"
| "format_args BTW _ = Inl TypeError"
| "format_args x args = Inr [(operator_value x, args)]"

section \<open>Query parameters\<close>

text \<open>
  The validators of \<^verbatim>\<open>app/core/api/queryparams.py\<close> are pydantic models; what pydantic
  makes of a string is not part of the repository, so the parser takes them as parameters:
  \<^item> \<open>SingleValue\<close>: \<^verbatim>\<open>SingleValue(value=s).value\<close>; the union has \<^verbatim>\<open>str\<close> as a member, so
    every string validates;
  \<^item> \<open>ListValue\<close>: \<^verbatim>\<open>ListValue(values=xs).values\<close>;
  \<^item> \<open>DictValue\<close>: \<^verbatim>\<open>DictValue(min=a, max=b).model_dump()\<close>; the fields are
    \<^verbatim>\<open>float | int | datetime\<close>, so a string may fail to validate (\<open>None\<close>);
  \<^item> \<open>check_object_id\<close>: the function of that name in \<^verbatim>\<open>custom_fields.py\<close>, which turns
    a valid ObjectId string into an ObjectId and returns anything else as it is.
\<close>

record 'v validators =
  SingleValue :: "string \<Rightarrow> 'v"
  ListValue :: "string list \<Rightarrow> 'v list"
  DictValue :: "string \<Rightarrow> string \<Rightarrow> ('v \<times> 'v) option"
  check_object_id :: "'v \<Rightarrow> 'v"

text \<open>An entry of \<^verbatim>\<open>filter_by\<close>: \<^verbatim>\<open>dict(op=op, value=value)\<close>.\<close>

datatype 'v filter_arg = Filter_arg (arg_op: string) (arg_value: "'v fvalue")

definition STANDARD_PARAMS :: "string list" where
  "STANDARD_PARAMS = [''sort_by.order_by'', ''sort_by.asc_desc'',
                      ''page_by.page'', ''page_by.per_page'', ''query'', ''view'']"

definition extra_fields :: "string list" where
  "extra_fields = [''_id'']"

text \<open>
  Lines 140 to 149 of \<^verbatim>\<open>prepare_filter_args\<close>: the value of one filter, from the operator
  token and the pieces of the raw value. \<^verbatim>\<open>val[1]\<close> on a one-element list raises
  \<^verbatim>\<open>IndexError\<close>; a failed \<^verbatim>\<open>DictValue\<close> raises \<^verbatim>\<open>ValidationError\<close>.
\<close>

definition filter_value :: "'v validators \<Rightarrow> string \<Rightarrow> string list \<Rightarrow> error + 'v fvalue" where
  "filter_value V opr val =
     (case val of
        [] \<Rightarrow> Inl IndexError
      | v0 # rest \<Rightarrow>
          if opr = operator_value BTW then
            (case rest of
               [] \<Rightarrow> Inl IndexError
             | v1 # _ \<Rightarrow>
                 (case DictValue V v0 v1 of
                    None \<Rightarrow> Inl ValidationError
                  | Some (lo, hi) \<Rightarrow> Inr (MinMax lo hi)))
          else if opr \<in> set [operator_value IN, operator_value NIN] then
            Inr (Values (ListValue V (str_split ''|'' v0)))
          else Inr (Single (SingleValue V v0)))"

text \<open>
  The loop of \<^verbatim>\<open>prepare_filter_args\<close> over \<^verbatim>\<open>filter_options.items()\<close>, threading
  \<^verbatim>\<open>filter_args\<close> and \<^verbatim>\<open>self.others\<close>. An exception ends the loop.
\<close>

fun filter_loop ::
  "'v validators \<Rightarrow> string list \<Rightarrow> (string \<times> string) list \<Rightarrow>
   (string, 'v filter_arg) dict \<times> (string, string) dict \<Rightarrow>
   error + ((string, 'v filter_arg) dict \<times> (string, string) dict)" where
  "filter_loop V model_fields [] (filter_args, others) = Inr (filter_args, others)"
| "filter_loop V model_fields ((k, v) # rest) (filter_args, others) =
     (let parts = str_split ''.'' k;
          dotpath = butlast parts;
          opr = last parts;
          val = str_split ''__'' v
      in if length dotpath < 1 then
           filter_loop V model_fields rest (filter_args, dict_set k v others)
         else if (hd dotpath \<notin> set model_fields \<and> hd dotpath \<notin> set extra_fields)
                 \<or> length val < 1 then
           filter_loop V model_fields rest (filter_args, dict_set k v others)
         else
           (case filter_value V opr val of
              Inl e \<Rightarrow> Inl e
            | Inr value \<Rightarrow>
                filter_loop V model_fields rest
                  (dict_set (join ''.'' dotpath) (Filter_arg opr value) filter_args, others)))"

text \<open>
  \<^verbatim>\<open>prepare_filter_args\<close>. The query parameters are given as the sequence of their
  \<^verbatim>\<open>items()\<close>; \<^verbatim>\<open>self.others\<close> is empty when the constructor calls the function. The result
  is the returned \<^verbatim>\<open>filter_args\<close> together with \<^verbatim>\<open>self.others\<close>.
\<close>

definition filter_options :: "(string \<times> string) list \<Rightarrow> (string, string) dict" where
  "filter_options query_params =
     dict_of_items (filter (\<lambda>(k, v). k \<notin> set STANDARD_PARAMS) query_params)"

definition prepare_filter_args ::
  "'v validators \<Rightarrow> string list \<Rightarrow> (string \<times> string) list \<Rightarrow>
   error + ((string, 'v filter_arg) dict \<times> (string, string) dict)" where
  "prepare_filter_args V model_fields query_params =
     filter_loop V model_fields (filter_options query_params) ([], [])"

text \<open>
  A concrete instance of the validators, for the examples: a string stays a string, the
  bounds of a range are read as decimal integers (and fail to validate otherwise), and no
  value is an ObjectId.
\<close>

datatype pyval =
  PNone | PStr string | PInt int | PBool bool | PObjectId string | PDict "(string \<times> pyval) list"

definition digit_of :: "char \<Rightarrow> nat option" where
  "digit_of c = (if c \<in> set ''0123456789'' then Some (of_char c - 48) else None)"

fun decimal_aux :: "nat \<Rightarrow> string \<Rightarrow> nat option" where
  "decimal_aux n [] = Some n"
| "decimal_aux n (c # cs) =
     (case digit_of c of None \<Rightarrow> None | Some d \<Rightarrow> decimal_aux (10 * n + d) cs)"

definition decimal :: "string \<Rightarrow> int option" where
  "decimal s = (if s = [] then None else map_option int (decimal_aux 0 s))"

definition plain_validators :: "pyval validators" where
  "plain_validators =
     \<lparr> SingleValue = PStr,
       ListValue = map PStr,
       DictValue = (\<lambda>a b. case (decimal a, decimal b) of
                             (Some x, Some y) \<Rightarrow> Some (PInt x, PInt y)
                           | _ \<Rightarrow> None),
       check_object_id = id \<rparr>"

subsection \<open>The query parameter object\<close>

text \<open>
  The resource model, as far as the query parameters read it: \<^verbatim>\<open>model_class.model_fields\<close>,
  a dictionary from the declared field names to the \<^verbatim>\<open>__name__\<close> of the field's annotation
  (\<open>None\<close> when the annotation has no such attribute).
\<close>

type_synonym model_class = "(string, string option) dict"

datatype SortOrderingType = ASC | DESC

record 'v ModelQueryParams =
  order_by :: string
  asc_desc :: SortOrderingType
  page :: int
  per_page :: int
  view :: "string option"
  query :: "string option"
  model_class :: model_class
  prev_page :: "int option"
  next_page :: "int option"
  pages :: int
  skip :: int
  total_n :: int
  others :: "(string, string) dict"
  filter_by :: "(string, 'v filter_arg) dict"


text \<open>
  The key under which a declared field is queried: a field whose annotation is named
  \<^verbatim>\<open>Link\<close> is queried as \<^verbatim>\<open>k.$id\<close>.
\<close>

definition db_key :: "model_class \<Rightarrow> string \<Rightarrow> string" where
  "db_key mc k =
     (case dict_get mc k of
        Some (Some field_type) \<Rightarrow>
          if field_type \<noteq> [] \<and> field_type = ''Link'' then k @ ''.$id'' else k
      | _ \<Rightarrow> k)"

text \<open>
  \<^verbatim>\<open>FilterByAttribute(op=..., value=...)\<close>: the operator token must be the value of a member
  of \<^verbatim>\<open>Operators\<close>; \<^verbatim>\<open>check_object_id\<close> runs on the value and leaves lists and dictionaries
  as they are.
\<close>

fun check_value :: "'v validators \<Rightarrow> 'v fvalue \<Rightarrow> 'v fvalue" where
  "check_value V (Single v) = Single (check_object_id V v)"
| "check_value V (Values vs) = Values vs"
| "check_value V (MinMax lo hi) = MinMax lo hi"

definition FilterByAttribute ::
  "'v validators \<Rightarrow> string \<Rightarrow> 'v fvalue \<Rightarrow> error + (Operators \<times> 'v fvalue)" where
  "FilterByAttribute V opr value =
     (case operator_of_value opr of
        None \<Rightarrow> Inl ValidationError
      | Some x \<Rightarrow> Inr (x, check_value V value))"

type_synonym 'v db_query = "(string, (string, 'v fvalue) dict) dict"

text \<open>Step 1 of \<^verbatim>\<open>get_db_query\<close>: the loop over \<^verbatim>\<open>self.filter_by.items()\<close>.\<close>

fun parsed_filters ::
  "'v validators \<Rightarrow> model_class \<Rightarrow> (string \<times> 'v filter_arg) list \<Rightarrow> 'v db_query \<Rightarrow>
   error + 'v db_query" where
  "parsed_filters V mc [] filters = Inr filters"
| "parsed_filters V mc ((k, v) # rest) filters =
     (if k \<notin> set (keys mc) then parsed_filters V mc rest filters
      else
        (case FilterByAttribute V (arg_op v) (arg_value v) of
           Inl e \<Rightarrow> Inl e
         | Inr (x, value) \<Rightarrow>
             (case format_args x value of
                Inl e \<Rightarrow> Inl e
              | Inr formatted \<Rightarrow>
                  parsed_filters V mc rest (dict_set (db_key mc k) formatted filters))))"

text \<open>Step 2: the loop over the items of one default filter, and over the default filters.\<close>

fun default_filter_items ::
  "'v validators \<Rightarrow> model_class \<Rightarrow> (string \<times> 'v) list \<Rightarrow> 'v db_query \<Rightarrow> error + 'v db_query" where
  "default_filter_items V mc [] filters = Inr filters"
| "default_filter_items V mc ((k, v) # rest) filters =
     (if k \<notin> set (keys mc) then default_filter_items V mc rest filters
      else
        (case FilterByAttribute V (operator_value EQUAL) (Single v) of
           Inl e \<Rightarrow> Inl e
         | Inr (x, value) \<Rightarrow>
             (case format_args x value of
                Inl e \<Rightarrow> Inl e
              | Inr formatted \<Rightarrow>
                  default_filter_items V mc rest (dict_set (db_key mc k) formatted filters))))"

fun default_filters_loop ::
  "'v validators \<Rightarrow> model_class \<Rightarrow> (string, 'v) dict list \<Rightarrow> 'v db_query \<Rightarrow> error + 'v db_query" where
  "default_filters_loop V mc [] filters = Inr filters"
| "default_filters_loop V mc (default_filter # rest) filters =
     (case default_filter_items V mc default_filter filters of
        Inl e \<Rightarrow> Inl e
      | Inr filters' \<Rightarrow> default_filters_loop V mc rest filters')"

text \<open>
  \<^verbatim>\<open>int(total / per_page)\<close>: true division, then truncation towards zero; division by zero
  raises. (The quotient is a float in Python; it is exact for counts below \<open>2 ^ 53\<close>.)
\<close>

definition int_truediv :: "int \<Rightarrow> int \<Rightarrow> error + int" where
  "int_truediv a b =
     (if b = 0 then Inl ZeroDivisionError else Inr (sgn a * sgn b * (\<bar>a\<bar> div \<bar>b\<bar>)))"

text \<open>
  \<^verbatim>\<open>get_db_query\<close>. \<open>count\<close> is the database: the number of documents of the model that match
  a query. The result is the returned query and the updated object.
\<close>

definition get_db_query ::
  "'v validators \<Rightarrow> ('v db_query \<Rightarrow> nat) \<Rightarrow> 'v ModelQueryParams \<Rightarrow> (string, 'v) dict list \<Rightarrow>
   error + ('v db_query \<times> 'v ModelQueryParams)" where
  "get_db_query V count self default_filters =
     (case parsed_filters V (model_class self) (filter_by self) [] of
        Inl e \<Rightarrow> Inl e
      | Inr filters1 \<Rightarrow>
          (case default_filters_loop V (model_class self) default_filters filters1 of
             Inl e \<Rightarrow> Inl e
           | Inr filters \<Rightarrow>
               (let total' = int (count filters);
                    skip' = (page self - 1) * per_page self;
                    next' = (if skip' + per_page self < total' then Some (page self + 1) else None);
                    prev' = (if page self > 1 then Some (page self - 1) else None)
                in case int_truediv total' (per_page self) of
                     Inl e \<Rightarrow> Inl e
                   | Inr q \<Rightarrow>
                       Inr (filters,
                            self\<lparr> total_n := total', skip := skip', next_page := next',
                                  prev_page := prev', pages := max q 1 \<rparr>))))"

section \<open>Guards\<close>

text \<open>
  \<^verbatim>\<open>app/core/api/middleware.py\<close>. A user document, as far as the guards read it; the
  collection is a lookup from identifiers, which may itself raise.
\<close>

record user =
  is_suspended :: bool
  permissions :: "string list"

text \<open>
  \<^verbatim>\<open>MiddlewareFactory.auth_deps(klass, public, validate)\<close>, the dependency it returns.
  \<open>authorization\<close> is the bearer credential, \<open>None\<close> when the header is absent;
  \<open>get_user_id\<close> is \<^verbatim>\<open>AuthToken.get_user_id\<close> (the token library decodes and verifies);
  \<open>klass_get\<close> is \<^verbatim>\<open>klass.get\<close>. The three \<^verbatim>\<open>except\<close> clauses catch what the \<^verbatim>\<open>try\<close>
  block raises; an \<^verbatim>\<open>HTTPException\<close> raised inside it passes through them.
\<close>

definition authentication_error :: "ApplicationErrors \<Rightarrow> error" where
  "authentication_error x =
     HTTPException 401
       (Detail_list [Error_entry ''authentication_error'' (error_code x)
                       [''header'', ''authorization''] (error_message x)])"

definition auth_try ::
  "(string \<Rightarrow> error + string) \<Rightarrow> (string \<Rightarrow> error + user option) \<Rightarrow> bool \<Rightarrow> string \<Rightarrow>
   error + string" where
  "auth_try get_user_id klass_get validate credentials =
     (case get_user_id credentials of
        Inl e \<Rightarrow> Inl e
      | Inr user_id \<Rightarrow>
          if user_id = [] then Inl (authentication_error TOKEN_INVALID)
          else if validate then
            (case klass_get user_id of
               Inl e \<Rightarrow> Inl e
             | Inr u \<Rightarrow>
                 (case u of
                    None \<Rightarrow> Inl (authentication_error TOKEN_DENIED)
                  | Some usr \<Rightarrow>
                      if is_suspended usr then Inl (authentication_error TOKEN_DENIED)
                      else Inr user_id))
          else Inr user_id)"

definition auth_deps ::
  "(string \<Rightarrow> error + string) \<Rightarrow> (string \<Rightarrow> error + user option) \<Rightarrow> bool \<Rightarrow> bool \<Rightarrow>
   string option \<Rightarrow> error + string option" where
  "auth_deps get_user_id klass_get public validate authorization =
     (if public then Inr None
      else
        (case authorization of
           None \<Rightarrow> Inl (authentication_error TOKEN_REQUIRED)
         | Some credentials \<Rightarrow>
             if credentials = [] then Inl (authentication_error TOKEN_REQUIRED)
             else
               (case auth_try get_user_id klass_get validate credentials of
                  Inr user_id \<Rightarrow> Inr (Some user_id)
                | Inl ExpiredSignatureError \<Rightarrow> Inl (authentication_error TOKEN_EXPIRED)
                | Inl InvalidSignatureError \<Rightarrow> Inl (authentication_error TOKEN_INVALID)
                | Inl ValidationError \<Rightarrow> Inl (authentication_error TOKEN_DENIED)
                | Inl e \<Rightarrow> Inl e)))"



text \<open>\<^verbatim>\<open>custom_fields.py\<close>, \<^verbatim>\<open>AppToken\<close>; \<^verbatim>\<open>live_mode\<close> is computed from the key.\<close>

record AppToken =
  token_key :: string
  token_app_id :: string
  token_entity_id :: "string option"
  token_user_id :: "string option"

definition token_live_mode :: "AppToken \<Rightarrow> bool" where
  "token_live_mode t = (if startswith (token_key t) ''sk_live'' then True else False)"




section \<open>Endpoints\<close>

text \<open>\<^verbatim>\<open>custom_fields.py\<close>, \<^verbatim>\<open>ExtraParameters\<close> and its \<^verbatim>\<open>as_dict\<close>.\<close>

datatype RouteTypes = APP | API

record ExtraParameters =
  entity_id :: "string option"
  user_id :: "string option"
  token :: "AppToken option"
  live_mode :: "bool option"
  route_type :: RouteTypes

definition str_or_none :: "string option \<Rightarrow> pyval" where
  "str_or_none x = (case x of None \<Rightarrow> PNone | Some s \<Rightarrow> PStr s)"

definition bool_or_none :: "bool option \<Rightarrow> pyval" where
  "bool_or_none x = (case x of None \<Rightarrow> PNone | Some b \<Rightarrow> PBool b)"

text \<open>\<^verbatim>\<open>AppToken.model_dump(exclude={"key"})\<close>: the fields in declaration order, then the computed one.\<close>

definition token_dump :: "AppToken \<Rightarrow> (string, pyval) dict" where
  "token_dump t =
     [(''app_id'', PStr (token_app_id t)),
      (''entity_id'', str_or_none (token_entity_id t)),
      (''user_id'', str_or_none (token_user_id t)),
      (''live_mode'', PBool (token_live_mode t))]"

definition as_dict :: "ExtraParameters \<Rightarrow> (string, pyval) dict" where
  "as_dict self =
     (case (route_type self, token self) of
        (API, Some t) \<Rightarrow> token_dump t
      | _ \<Rightarrow>
          [(''entity_id'', str_or_none (entity_id self)),
           (''user_id'', str_or_none (user_id self)),
           (''token'', (case token self of
                          None \<Rightarrow> PNone
                        | Some t \<Rightarrow> PDict ((''key'', PStr (token_key t)) # token_dump t))),
           (''live_mode'', bool_or_none (live_mode self))])"

subsection \<open>The default update function\<close>

text \<open>
  A document is the dictionary of its declared fields. A payload is given by the fields
  that were set on it, with their values.
\<close>

type_synonym document = "(string, pyval) dict"

text \<open>\<^verbatim>\<open>d.update(e)\<close>.\<close>

definition dict_update :: "('k, 'v) dict \<Rightarrow> ('k, 'v) dict \<Rightarrow> ('k, 'v) dict" where
  "dict_update d e = foldl (\<lambda>d (k, v). dict_set k v d) d e"

text \<open>\<^verbatim>\<open>payload.model_dump(exclude_unset=True, exclude_none=True)\<close>.\<close>

definition model_dump_set :: "document \<Rightarrow> document" where
  "model_dump_set payload = filter (\<lambda>(k, v). v \<noteq> PNone) payload"

text \<open>
  \<^verbatim>\<open>obj.model_copy(update=data).model_dump()\<close>: every declared field, with the value from
  \<open>data\<close> where \<open>data\<close> has the field; keys of \<open>data\<close> that are no field of the document
  are not dumped.
\<close>

definition model_copy_dump :: "document \<Rightarrow> document \<Rightarrow> document" where
  "model_copy_dump obj data =
     map (\<lambda>(k, v). (k, case dict_get data k of Some v' \<Rightarrow> v' | None \<Rightarrow> v)) obj"

text \<open>
  \<^verbatim>\<open>_update_func\<close>. \<open>model_validate\<close> is the model's validation (\<open>None\<close>: it raises, and
  the exception is raised again); \<open>store\<close> is the collection, and \<^verbatim>\<open>replace()\<close> writes the
  validated document under the identifier it was found with.
\<close>

definition update_func ::
  "(document \<Rightarrow> document option) \<Rightarrow> (string \<rightharpoonup> document) \<Rightarrow> string \<Rightarrow> document \<Rightarrow> document \<Rightarrow>
   error + (document \<times> (string \<rightharpoonup> document))" where
  "update_func model_validate store obj_id payload extra_parameters =
     (let data = dict_update (model_dump_set payload) extra_parameters
      in case store obj_id of
           None \<Rightarrow> Inl RequestValidationError
         | Some obj \<Rightarrow>
             (let updated_data = model_copy_dump obj data
              in case model_validate updated_data of
                   None \<Rightarrow> Inl ValidationError
                 | Some doc \<Rightarrow> Inr (doc, store(obj_id \<mapsto> doc))))"

subsection \<open>The generated routes\<close>





























text \<open>
  The route table of the router: each \<^verbatim>\<open>init_..._endpoint\<close> registers its route function,
  whatever the flag; the flag only sets \<^verbatim>\<open>include_in_schema\<close>.
\<close>

datatype http_method = GET | POST | PUT | DELETE

datatype handler = List_route | Fetch_route | Create_route | Update_route | Delete_route

record route =
  route_method :: http_method
  route_path :: string
  include_in_schema :: bool
  endpoint :: handler










section \<open>Example data\<close>

text \<open>A resource declaring the fields \<^verbatim>\<open>status\<close> and \<^verbatim>\<open>weight\<close>, with twelve matching records.\<close>

definition example_model :: model_class where
  "example_model = [(''status'', Some ''str''), (''weight'', Some ''float'')]"

definition twelve_matching :: "pyval db_query \<Rightarrow> nat" where
  "twelve_matching q = 12"

text \<open>A token decoder that knows one token, and a user collection with one user.\<close>

definition example_get_user_id :: "string \<Rightarrow> error + string" where
  "example_get_user_id t = (if t = ''good'' then Inr ''u1'' else Inl InvalidSignatureError)"

definition example_user :: user where
  "example_user = \<lparr> is_suspended = False, permissions = [''read''] \<rparr>"

definition example_klass_get :: "string \<Rightarrow> error + user option" where
  "example_klass_get uid = Inr (if uid = ''u1'' then Some example_user else None)"












text \<open>
  A stored record, a model validation that accepts every document, and the extra
  parameters of a request on an application route with no guard wired.
\<close>

definition accept_all :: "document \<Rightarrow> document option" where
  "accept_all d = Some d"

definition example_store :: "string \<rightharpoonup> document" where
  "example_store =
     [''r1'' \<mapsto> [(''name'', PStr ''old''), (''description'', PStr ''x'')],
      ''r2'' \<mapsto> [(''name'', PStr ''old''), (''description'', PStr ''x''), (''user_id'', PStr ''u1'')]]"

definition no_extra_parameters :: ExtraParameters where
  "no_extra_parameters =
     \<lparr> entity_id = None, user_id = None, token = None, live_mode = Some False, route_type = APP \<rparr>"

text \<open>A query parameter object on page 2 with 5 records per page and no filter.\<close>

definition paging_example :: "pyval ModelQueryParams" where
  "paging_example =
     \<lparr> order_by = ''_id'', asc_desc = DESC, page = 2, per_page = 5, view = None, query = None,
       model_class = example_model, prev_page = None, next_page = None, pages = 1, skip = 0,
       total_n = 0, others = [], filter_by = [] \<rparr>"



text \<open>
  The attribute path of a query-string key: all the segments of \<^verbatim>\<open>k.split(".")\<close> but the
  last, as \<^verbatim>\<open>(*dotpath, op) = k.split(".")\<close> binds them.
\<close>

definition dotpath :: "string \<Rightarrow> string list" where
  "dotpath k = butlast (str_split ''.'' k)"

text \<open>
  The assignments that step 2 of \<^verbatim>\<open>get_db_query\<close> makes for the items of a default filter,
  in their order: the key of each declared field with its equality predicate.
\<close>

definition default_entries ::
  "'v validators \<Rightarrow> model_class \<Rightarrow> (string \<times> 'v) list \<Rightarrow> (string \<times> (string, 'v fvalue) dict) list" where
  "default_entries V mc items =
     map (\<lambda>(k, v). (db_key mc k, [(''$eq'', Single (check_object_id V v))]))
       (filter (\<lambda>(k, v). k \<in> set (keys mc)) items)"

text \<open>
  Query parameter objects whose parsed filters hold a dotted attribute path, and a filter
  on a linked field that the default filters also name.
\<close>

definition dotted_example :: "pyval ModelQueryParams" where
  "dotted_example =
     paging_example\<lparr> filter_by :=
       [(''status'', Filter_arg ''$eq'' (Single (PStr ''active''))),
        (''weight.unit'', Filter_arg ''$eq'' (Single (PStr ''kg'')))] \<rparr>"

definition forged_example :: "pyval ModelQueryParams" where
  "forged_example =
     paging_example\<lparr> model_class := [(''status'', Some ''str''), (''entity'', Some ''Link'')],
       filter_by :=
       [(''entity'', Filter_arg ''$ne'' (Single (PStr ''e1''))),
        (''status'', Filter_arg ''$eq'' (Single (PStr ''active'')))] \<rparr>"

section \<open>Facts about dictionaries\<close>

lemma map_of_dict_set: "map_of (dict_set k v d) = (map_of d)(k \<mapsto> v)"
  by (induction d) (auto simp: fun_eq_iff)

lemma dict_get_dict_set: "dict_get (dict_set k v d) k' = (if k' = k then Some v else dict_get d k')"
  by (simp add: dict_get_def map_of_dict_set)

lemma keys_dict_set: "set (keys (dict_set k v d)) = insert k (set (keys d))"
proof -
  have "dom (map_of (dict_set k v d)) = insert k (dom (map_of d))"
    by (simp add: map_of_dict_set)
  then show ?thesis by (simp add: dom_map_of_conv_image_fst keys_def)
qed


lemma dict_update_Nil: "dict_update d [] = d"
  by (simp add: dict_update_def)

lemma dict_update_Cons: "dict_update d ((k, v) # e) = dict_update (dict_set k v d) e"
  by (simp add: dict_update_def)

lemma dict_update_append: "dict_update d (e @ f) = dict_update (dict_update d e) f"
  by (simp add: dict_update_def)

lemma dict_get_dict_update:
  "dict_get (dict_update d e) k = (case map_of (rev e) k of Some v \<Rightarrow> Some v | None \<Rightarrow> dict_get d k)"
proof (induction e arbitrary: d)
  case Nil
  then show ?case by (simp add: dict_update_Nil)
next
  case (Cons a e)
  obtain k' v' where a: "a = (k', v')" by (cases a)
  show ?case
    by (simp add: a dict_update_Cons Cons.IH dict_get_dict_set map_add_def split: option.splits)
qed



lemma keys_dict_update: "set (keys (dict_update d e)) = set (keys d) \<union> fst ` set e"
proof (induction e arbitrary: d)
  case Nil
  then show ?case by (simp add: dict_update_Nil)
next
  case (Cons a e)
  then show ?case by (cases a) (auto simp add: dict_update_Cons keys_dict_set)
qed

section \<open>The guards\<close>

text \<open>
  C6. A bearer-token guard built with \<^verbatim>\<open>public=True\<close> returns \<^verbatim>\<open>None\<close> (no identity) and
  raises nothing, whatever the authorization header, absent or present. A guard that is
  not public, on a request without the authorization header, raises the
  \<^verbatim>\<open>HTTPException\<close> with status 401 whose detail carries the code \<^verbatim>\<open>TOKEN.REQUIRED\<close>.
\<close>

theorem auth_deps_public_and_required:
  "(public \<longrightarrow> auth_deps get_user_id klass_get public validate authorization = Inr None) \<and>
   (\<not> public \<longrightarrow>
      auth_deps get_user_id klass_get public validate None =
        Inl (HTTPException 401
               (Detail_list [Error_entry ''authentication_error'' ''TOKEN.REQUIRED''
                               [''header'', ''authorization'']
                               (error_message TOKEN_REQUIRED)])))"
  by (simp add: auth_deps_def authentication_error_def)

theorem auth_deps_public_and_required_witness:
  "auth_deps example_get_user_id example_klass_get True True None = Inr None \<and>
   auth_deps example_get_user_id example_klass_get False True None =
     Inl (HTTPException 401
            (Detail_list [Error_entry ''authentication_error'' ''TOKEN.REQUIRED''
                            [''header'', ''authorization'']
                            (error_message TOKEN_REQUIRED)]))"
  using auth_deps_public_and_required [of True example_get_user_id example_klass_get True None]
        auth_deps_public_and_required [of False example_get_user_id example_klass_get True None]
  by simp





section \<open>Disabled handlers\<close>









section \<open>Filter parsing\<close>

text \<open>
  C3. The claim is that parsing never raises and that a \<^verbatim>\<open>$btw\<close> value with fewer than two
  parts goes to the residual bucket. The guard of the code is \<^verbatim>\<open>len(val) < 1\<close>, which no
  split satisfies; on \<^verbatim>\<open>weight.$btw=5\<close> the code reads \<^verbatim>\<open>val[1]\<close> of a one-element list
  and raises \<^verbatim>\<open>IndexError\<close>, for every choice of the validators.
\<close>

theorem between_single_part_raises:
  "prepare_filter_args V [''weight''] [(''weight.$btw'', ''5'')] = Inl IndexError"
  by (simp add: prepare_filter_args_def filter_options_def STANDARD_PARAMS_def dict_of_items_def
      str_split_def extra_fields_def filter_value_def)

section \<open>Pagination\<close>

lemma int_truediv_floor:
  assumes "0 \<le> a" and "1 \<le> b"
  shows "int_truediv a b = Inr (a div b)"
proof (cases "a = 0")
  case True
  with assms show ?thesis by (simp add: int_truediv_def)
next
  case False
  with assms have "sgn a = 1" "sgn b = 1" "\<bar>a\<bar> = a" "\<bar>b\<bar> = b" by simp_all
  with assms show ?thesis by (simp add: int_truediv_def)
qed

text \<open>
  C2. For every request with \<open>page \<ge> 1\<close> and \<open>per_page \<ge> 1\<close>, when \<^verbatim>\<open>get_db_query\<close>
  returns, \<open>total\<close> is the count of the returned query, \<open>skip = (page - 1) * per_page\<close>,
  \<open>pages = max (total // per_page) 1\<close>, \<open>next_page\<close> is \<open>page + 1\<close> if
  \<open>skip + per_page < total\<close> and \<^verbatim>\<open>None\<close> otherwise, and \<open>prev_page\<close> is \<open>page - 1\<close> if
  \<open>page > 1\<close> and \<^verbatim>\<open>None\<close> otherwise.
\<close>

theorem get_db_query_pagination:
  assumes "1 \<le> page self" and "1 \<le> per_page self"
    and "get_db_query V count self default_filters = Inr (filters, self')"
  shows "total_n self' = int (count filters) \<and>
         skip self' = (page self - 1) * per_page self \<and>
         pages self' = max (total_n self' div per_page self) 1 \<and>
         next_page self' =
           (if skip self' + per_page self < total_n self' then Some (page self + 1) else None) \<and>
         prev_page self' = (if page self > 1 then Some (page self - 1) else None)"
proof -
  have q: "int_truediv (int (count filters)) (per_page self) =
             Inr (int (count filters) div per_page self)"
    using assms(2) by (simp add: int_truediv_floor)
  from assms(3) obtain filters1 where
    "self' = self\<lparr> total_n := int (count filters),
                   skip := (page self - 1) * per_page self,
                   next_page := (if (page self - 1) * per_page self + per_page self
                                      < int (count filters)
                                 then Some (page self + 1) else None),
                   prev_page := (if page self > 1 then Some (page self - 1) else None),
                   pages := max (int (count filters) div per_page self) 1 \<rparr>"
    using assms(2)
    by (auto simp: get_db_query_def Let_def int_truediv_floor split: sum.splits)
  then show ?thesis by simp
qed

theorem get_db_query_pagination_witness:
  "get_db_query plain_validators twelve_matching paging_example [] =
     Inr ([], paging_example\<lparr> total_n := 12, skip := 5, next_page := Some 3,
                              prev_page := Some 1, pages := 2 \<rparr>) \<and>
   pages (paging_example\<lparr> total_n := 12, skip := 5, next_page := Some 3,
                              prev_page := Some 1, pages := 2 \<rparr>) = max (12 div 5) 1"
proof -
  have p: "1 \<le> page paging_example" "1 \<le> per_page paging_example"
    by (simp_all add: paging_example_def)
  have r: "get_db_query plain_validators twelve_matching paging_example [] =
     Inr ([], paging_example\<lparr> total_n := 12, skip := 5, next_page := Some 3,
                              prev_page := Some 1, pages := 2 \<rparr>)"
    by (simp add: get_db_query_def paging_example_def twelve_matching_def int_truediv_def)
  from get_db_query_pagination [OF p r] r show ?thesis
    by (simp add: paging_example_def)
qed

section \<open>The example query\<close>






section \<open>Updates\<close>

text \<open>
  The example of the specification holds on the code: on a record with the fields
  \<^verbatim>\<open>name\<close> and \<^verbatim>\<open>description\<close> only, a request without guards and the payload
  \<^verbatim>\<open>{name: new}\<close> persist \<^verbatim>\<open>{name: new, description: x}\<close>.
\<close>

lemma update_func_example:
  "update_func accept_all example_store ''r1'' [(''name'', PStr ''new'')]
       (as_dict no_extra_parameters) =
     Inr ([(''name'', PStr ''new''), (''description'', PStr ''x'')],
          example_store(''r1'' \<mapsto> [(''name'', PStr ''new''), (''description'', PStr ''x'')]))"
  by (simp add: example_store_def update_func_def Let_def model_copy_dump_def model_dump_set_def
      dict_update_def dict_get_def as_dict_def no_extra_parameters_def str_or_none_def
      bool_or_none_def accept_all_def)

text \<open>
  C8. The claim is that only the payload fields that were set to a value other than
  \<^verbatim>\<open>None\<close> are merged over the values of the existing record. The docstring of
  \<^verbatim>\<open>_update_func\<close> calls the extra parameters additional values to insert into the object
  if they do not exist, but the code runs \<^verbatim>\<open>data.update(extra_parameters)\<close> whatever the
  record holds and whatever the values are. On a record whose \<^verbatim>\<open>user_id\<close> is \<^verbatim>\<open>u1\<close>, with
  the payload \<^verbatim>\<open>{name: new}\<close> and extra parameters whose \<^verbatim>\<open>user_id\<close> is \<^verbatim>\<open>None\<close>, the
  update persists \<^verbatim>\<open>user_id = None\<close>.
\<close>

theorem update_func_overwrites_existing_value:
  "example_store ''r2'' =
     Some [(''name'', PStr ''old''), (''description'', PStr ''x''), (''user_id'', PStr ''u1'')] \<and>
   dict_get (as_dict no_extra_parameters) ''user_id'' = Some PNone \<and>
   (case update_func accept_all example_store ''r2'' [(''name'', PStr ''new'')]
           (as_dict no_extra_parameters) of
      Inl e \<Rightarrow> False
    | Inr (doc, store') \<Rightarrow>
        doc = [(''name'', PStr ''new''), (''description'', PStr ''x''), (''user_id'', PNone)] \<and>
        store' ''r2'' = Some doc)"
  by (simp add: example_store_def update_func_def Let_def model_copy_dump_def model_dump_set_def
      dict_update_def dict_get_def as_dict_def no_extra_parameters_def str_or_none_def
      bool_or_none_def accept_all_def)

section \<open>The database query\<close>

lemma db_key_cases:
  "db_key mc k = k \<and> dict_get mc k \<noteq> Some (Some ''Link'') \<or>
   db_key mc k = k @ ''.$id'' \<and> dict_get mc k = Some (Some ''Link'')"
  by (auto simp: db_key_def split: option.splits)

lemma FilterByAttribute_EQUAL:
  "FilterByAttribute V ''$eq'' (Single v) = Inr (EQUAL, Single (check_object_id V v))"
  by (simp add: FilterByAttribute_def operator_of_value_def all_operators_def)

lemma default_filter_items_eq:
  "default_filter_items V mc items filters =
     Inr (dict_update filters (default_entries V mc items))"
proof (induction items arbitrary: filters)
  case Nil
  then show ?case by (simp add: default_entries_def dict_update_Nil)
next
  case (Cons a items)
  obtain k v where a: "a = (k, v)" by (cases a)
  show ?case
  proof (cases "k \<in> set (keys mc)")
    case True
    then show ?thesis
      using Cons.IH [of "dict_set (db_key mc k) [(''$eq'', Single (check_object_id V v))] filters"]
      by (simp add: a FilterByAttribute_EQUAL default_entries_def dict_update_Cons)
  next
    case False
    then show ?thesis
      using Cons.IH [of filters] by (simp add: a default_entries_def)
  qed
qed

lemma default_entries_append:
  "default_entries V mc (xs @ ys) = default_entries V mc xs @ default_entries V mc ys"
  by (simp add: default_entries_def)

lemma default_filters_loop_eq:
  "default_filters_loop V mc default_filters filters =
     Inr (dict_update filters (default_entries V mc (concat default_filters)))"
proof (induction default_filters arbitrary: filters)
  case Nil
  then show ?case by (simp add: default_entries_def dict_update_Nil)
next
  case (Cons d ds)
  show ?case
    by (simp add: default_filter_items_eq Cons.IH default_entries_append dict_update_append)
qed

lemma parsed_filters_keys:
  "parsed_filters V mc xs filters = Inr filters' \<Longrightarrow>
   set (keys filters') \<subseteq> set (keys filters) \<union> db_key mc ` set (keys mc)"
proof (induction xs arbitrary: filters)
  case Nil
  then show ?case by auto
next
  case (Cons a xs)
  obtain k c where a: "a = (k, c)" by (cases a)
  show ?case
  proof (cases "k \<in> set (keys mc)")
    case False
    with Cons a show ?thesis by simp
  next
    case True
    with Cons.prems a obtain formatted where
      r: "parsed_filters V mc xs (dict_set (db_key mc k) formatted filters) = Inr filters'"
      by (auto split: sum.splits)
    from Cons.IH [OF r] True show ?thesis
      by (auto simp: keys_dict_set)
  qed
qed

lemma parsed_filters_skip:
  "name \<notin> set (keys mc) \<Longrightarrow>
   parsed_filters V mc (before @ (name, clause) # after) filters =
   parsed_filters V mc (before @ after) filters"
proof (induction before arbitrary: filters)
  case Nil
  then show ?case by simp
next
  case (Cons a before)
  obtain k c where a: "a = (k, c)" by (cases a)
  from Cons show ?case
    by (simp add: a split: sum.splits)
qed

lemma default_entries_keys:
  "fst ` set (default_entries V mc items) = db_key mc ` {k \<in> set (keys mc). k \<in> fst ` set items}"
  by (force simp: default_entries_def image_iff)

lemma get_db_query_filters:
  assumes "get_db_query V count self default_filters = Inr (filters, self')"
  obtains parsed where "parsed_filters V (model_class self) (filter_by self) [] = Inr parsed"
    and "filters = dict_update parsed
           (default_entries V (model_class self) (concat default_filters))"
  using assms
  by (auto simp: get_db_query_def Let_def default_filters_loop_eq split: sum.splits)

text \<open>
  C10. Every key of the query returned by \<^verbatim>\<open>get_db_query\<close> is the name of a declared
  field whose annotation is not \<^verbatim>\<open>Link\<close>, or the name of a declared \<^verbatim>\<open>Link\<close> field with
  \<^verbatim>\<open>.$id\<close> appended. Consequently, when no declared field name contains a dot, a parsed
  filter under a dotted attribute path does not reach the query: the function returns the
  same query, and the same pagination, as without that filter.
\<close>

theorem db_query_keys_declared:
  assumes "get_db_query V count self default_filters = Inr (filters, self')"
  shows "(\<forall>key \<in> set (keys filters). \<exists>k \<in> set (keys (model_class self)).
            key = k \<and> dict_get (model_class self) k \<noteq> Some (Some ''Link'') \<or>
            key = k @ ''.$id'' \<and> dict_get (model_class self) k = Some (Some ''Link'')) \<and>
         (\<forall>name clause before after.
            CHR ''.'' \<in> set name \<longrightarrow>
            (\<forall>f \<in> set (keys (model_class self)). CHR ''.'' \<notin> set f) \<longrightarrow>
            filter_by self = before @ (name, clause) # after \<longrightarrow>
            get_db_query V count (self\<lparr>filter_by := before @ after\<rparr>) default_filters =
              Inr (filters, self'\<lparr>filter_by := before @ after\<rparr>))"
proof (intro conjI ballI allI impI)
  fix key
  assume key: "key \<in> set (keys filters)"
  from assms obtain parsed where
    p: "parsed_filters V (model_class self) (filter_by self) [] = Inr parsed" and
    f: "filters = dict_update parsed
          (default_entries V (model_class self) (concat default_filters))"
    by (rule get_db_query_filters)
  from parsed_filters_keys [OF p]
  have "set (keys parsed) \<subseteq> db_key (model_class self) ` set (keys (model_class self))"
    by (simp add: keys_def)
  moreover have "fst ` set (default_entries V (model_class self) (concat default_filters))
                   \<subseteq> db_key (model_class self) ` set (keys (model_class self))"
    by (auto simp: default_entries_keys)
  ultimately have "key \<in> db_key (model_class self) ` set (keys (model_class self))"
    using key by (auto simp: f keys_dict_update)
  then obtain k where k: "k \<in> set (keys (model_class self))" "key = db_key (model_class self) k"
    by auto
  with db_key_cases [of "model_class self" k]
  show "\<exists>k \<in> set (keys (model_class self)).
            key = k \<and> dict_get (model_class self) k \<noteq> Some (Some ''Link'') \<or>
            key = k @ ''.$id'' \<and> dict_get (model_class self) k = Some (Some ''Link'')"
    by auto
next
  fix name :: string and clause :: "'a filter_arg" and before after
  assume dot: "CHR ''.'' \<in> set name"
    and nodot: "\<forall>f \<in> set (keys (model_class self)). CHR ''.'' \<notin> set f"
    and fb: "filter_by self = before @ (name, clause) # after"
  from dot nodot have "name \<notin> set (keys (model_class self))" by auto
  then have "parsed_filters V (model_class self) (filter_by self) [] =
             parsed_filters V (model_class self) (before @ after) []"
    by (simp add: fb parsed_filters_skip)
  with assms
  show "get_db_query V count (self\<lparr>filter_by := before @ after\<rparr>) default_filters =
          Inr (filters, self'\<lparr>filter_by := before @ after\<rparr>)"
    by (auto simp: get_db_query_def Let_def split: sum.splits)
qed

theorem db_query_keys_declared_witness:
  "get_db_query plain_validators twelve_matching dotted_example [] =
     Inr ([(''status'', [(''$eq'', Single (PStr ''active''))])],
          dotted_example\<lparr> total_n := 12, skip := 5, next_page := Some 3,
                           prev_page := Some 1, pages := 2 \<rparr>) \<and>
   set (keys [(''status'', [(''$eq'', Single (PStr ''active''))])]) \<subseteq> set (keys example_model) \<and>
   get_db_query plain_validators twelve_matching
       (dotted_example\<lparr>filter_by := [(''status'', Filter_arg ''$eq'' (Single (PStr ''active'')))]\<rparr>) []
     = Inr ([(''status'', [(''$eq'', Single (PStr ''active''))])],
            dotted_example\<lparr> total_n := 12, skip := 5, next_page := Some 3,
                             prev_page := Some 1, pages := 2,
                             filter_by :=
                               [(''status'', Filter_arg ''$eq'' (Single (PStr ''active'')))] \<rparr>)"
proof -
  let ?filters = "[(''status'', [(''$eq'', Single (PStr ''active''))])]"
  let ?self' = "dotted_example\<lparr> total_n := 12, skip := 5, next_page := Some 3,
                                 prev_page := Some 1, pages := 2 \<rparr>"
  have r: "get_db_query plain_validators twelve_matching dotted_example [] =
             Inr (?filters, ?self')"
    by (simp add: get_db_query_def dotted_example_def paging_example_def example_model_def
        keys_def twelve_matching_def int_truediv_def FilterByAttribute_def operator_of_value_def
        all_operators_def plain_validators_def db_key_def dict_get_def)
  have m: "model_class dotted_example = example_model"
    by (simp add: dotted_example_def paging_example_def)
  have fb: "filter_by dotted_example =
              [(''status'', Filter_arg ''$eq'' (Single (PStr ''active'')))] @
              (''weight.unit'', Filter_arg ''$eq'' (Single (PStr ''kg''))) # []"
    by (simp add: dotted_example_def)
  have nodot: "\<forall>f \<in> set (keys (model_class dotted_example)). CHR ''.'' \<notin> set f"
    by (simp add: m example_model_def keys_def)
  have dot: "CHR ''.'' \<in> set ''weight.unit''" by simp
  from db_query_keys_declared [OF r] have
    a: "\<forall>key \<in> set (keys ?filters). \<exists>k \<in> set (keys (model_class dotted_example)).
            key = k \<and> dict_get (model_class dotted_example) k \<noteq> Some (Some ''Link'') \<or>
            key = k @ ''.$id'' \<and> dict_get (model_class dotted_example) k = Some (Some ''Link'')"
    and b: "\<And>name clause before after.
            CHR ''.'' \<in> set name \<Longrightarrow>
            (\<forall>f \<in> set (keys (model_class dotted_example)). CHR ''.'' \<notin> set f) \<Longrightarrow>
            filter_by dotted_example = before @ (name, clause) # after \<Longrightarrow>
            get_db_query plain_validators twelve_matching
              (dotted_example\<lparr>filter_by := before @ after\<rparr>) [] =
              Inr (?filters, ?self'\<lparr>filter_by := before @ after\<rparr>)"
    by blast+
  from b [OF dot nodot fb] have
    c: "get_db_query plain_validators twelve_matching
          (dotted_example\<lparr>filter_by := [(''status'', Filter_arg ''$eq'' (Single (PStr ''active'')))]\<rparr>) []
        = Inr (?filters, ?self'\<lparr>filter_by :=
                  [(''status'', Filter_arg ''$eq'' (Single (PStr ''active'')))]\<rparr>)"
    by simp
  have k: "set (keys ?filters) \<subseteq> set (keys example_model)"
    by (simp add: keys_def example_model_def)
  from r k c show ?thesis by simp
qed

lemma default_entry_last_wins:
  assumes "items = before @ (k, v) # after" and "k \<in> set (keys mc)"
    and "\<forall>(k', v') \<in> set after. k' \<in> set (keys mc) \<longrightarrow> db_key mc k' \<noteq> db_key mc k"
  shows "dict_get (dict_update d (default_entries V mc items)) (db_key mc k) =
           Some [(''$eq'', Single (check_object_id V v))]"
proof -
  have es: "default_entries V mc items =
              default_entries V mc before @
              (db_key mc k, [(''$eq'', Single (check_object_id V v))]) #
              default_entries V mc after"
    using assms(1,2) by (simp add: default_entries_def)
  have "db_key mc k \<notin> fst ` set (rev (default_entries V mc after))"
    using assms(3) by (auto simp: default_entries_keys)
  then have n: "map_of (rev (default_entries V mc after)) (db_key mc k) = None"
    by (simp add: map_of_eq_None_iff)
  show ?thesis
    by (simp add: dict_get_dict_update es map_add_def n)
qed

lemma last_default_entry_exists:
  assumes "(k, v) \<in> set items" and "k \<in> set (keys mc)"
  shows "\<exists>before k' v' after. items = before @ (k', v') # after \<and> k' \<in> set (keys mc) \<and>
           db_key mc k' = db_key mc k \<and>
           (\<forall>(k'', v'') \<in> set after. k'' \<in> set (keys mc) \<longrightarrow> db_key mc k'' \<noteq> db_key mc k')"
proof -
  let ?P = "\<lambda>(k', v' :: 'b). k' \<in> set (keys mc) \<and> db_key mc k' = db_key mc k"
  from assms have "\<exists>x \<in> set items. ?P x" by auto
  from split_list_last_prop [OF this] obtain before x after where
    d: "items = before @ x # after" and x: "?P x" and a: "\<forall>z \<in> set after. \<not> ?P z"
    by blast
  obtain k' v' where kv: "x = (k', v')" by (cases x)
  from x kv have "k' \<in> set (keys mc)" "db_key mc k' = db_key mc k" by auto
  moreover from a this have
    "\<forall>(k'', v'') \<in> set after. k'' \<in> set (keys mc) \<longrightarrow> db_key mc k'' \<noteq> db_key mc k'"
    by auto
  ultimately show ?thesis using d kv by blast
qed

lemma default_entry_untouched:
  assumes "key \<notin> db_key mc ` {k \<in> set (keys mc). k \<in> fst ` set items}"
  shows "dict_get (dict_update d (default_entries V mc items)) key = dict_get d key"
proof -
  from assms have "key \<notin> fst ` set (rev (default_entries V mc items))"
    by (simp add: default_entries_keys)
  then have "map_of (rev (default_entries V mc items)) key = None"
    by (simp add: map_of_eq_None_iff)
  then show ?thesis by (simp add: dict_get_dict_update)
qed

text \<open>
  C1, amended. For every request, when \<^verbatim>\<open>get_db_query\<close> returns: for every entry of the
  default filters whose key is a declared field of the model and after which no entry of
  the default filters has the same query key (the last default filter for that key), the
  query maps the key, or its \<^verbatim>\<open>.$id\<close> form on a linked field, to the equality predicate of
  that entry, whatever the parsed filters are; every declared key of the default filters
  has such a last entry; and the parsed filters under all other keys are in the query
  unchanged.
\<close>

theorem default_filters_not_displaced:
  assumes "get_db_query V count self default_filters = Inr (filters, self')"
  shows "(\<forall>before k v after.
            concat default_filters = before @ (k, v) # after \<longrightarrow>
            k \<in> set (keys (model_class self)) \<longrightarrow>
            (\<forall>(k', v') \<in> set after.
               k' \<in> set (keys (model_class self)) \<longrightarrow>
               db_key (model_class self) k' \<noteq> db_key (model_class self) k) \<longrightarrow>
            dict_get filters (db_key (model_class self) k) =
              Some [(''$eq'', Single (check_object_id V v))]) \<and>
         (\<forall>k v. (k, v) \<in> set (concat default_filters) \<longrightarrow>
            k \<in> set (keys (model_class self)) \<longrightarrow>
            (\<exists>before k' v' after.
               concat default_filters = before @ (k', v') # after \<and>
               k' \<in> set (keys (model_class self)) \<and>
               db_key (model_class self) k' = db_key (model_class self) k \<and>
               (\<forall>(k'', v'') \<in> set after.
                  k'' \<in> set (keys (model_class self)) \<longrightarrow>
                  db_key (model_class self) k'' \<noteq> db_key (model_class self) k'))) \<and>
         (\<exists>parsed. parsed_filters V (model_class self) (filter_by self) [] = Inr parsed \<and>
            (\<forall>key. key \<notin> db_key (model_class self) `
                        {k \<in> set (keys (model_class self)).
                           k \<in> fst ` set (concat default_filters)} \<longrightarrow>
                   dict_get filters key = dict_get parsed key))"
proof (intro conjI)
  from assms obtain parsed where
    p: "parsed_filters V (model_class self) (filter_by self) [] = Inr parsed" and
    f: "filters = dict_update parsed
          (default_entries V (model_class self) (concat default_filters))"
    by (rule get_db_query_filters)
  show "\<forall>before k v after.
            concat default_filters = before @ (k, v) # after \<longrightarrow>
            k \<in> set (keys (model_class self)) \<longrightarrow>
            (\<forall>(k', v') \<in> set after.
               k' \<in> set (keys (model_class self)) \<longrightarrow>
               db_key (model_class self) k' \<noteq> db_key (model_class self) k) \<longrightarrow>
            dict_get filters (db_key (model_class self) k) =
              Some [(''$eq'', Single (check_object_id V v))]"
    unfolding f by (intro allI impI) (rule default_entry_last_wins)
  show "\<forall>k v. (k, v) \<in> set (concat default_filters) \<longrightarrow>
            k \<in> set (keys (model_class self)) \<longrightarrow>
            (\<exists>before k' v' after.
               concat default_filters = before @ (k', v') # after \<and>
               k' \<in> set (keys (model_class self)) \<and>
               db_key (model_class self) k' = db_key (model_class self) k \<and>
               (\<forall>(k'', v'') \<in> set after.
                  k'' \<in> set (keys (model_class self)) \<longrightarrow>
                  db_key (model_class self) k'' \<noteq> db_key (model_class self) k'))"
    by (intro allI impI) (rule last_default_entry_exists)
  have "\<forall>key. key \<notin> db_key (model_class self) `
                        {k \<in> set (keys (model_class self)).
                           k \<in> fst ` set (concat default_filters)} \<longrightarrow>
                   dict_get filters key = dict_get parsed key"
    unfolding f by (simp add: default_entry_untouched)
  with p show "\<exists>parsed. parsed_filters V (model_class self) (filter_by self) [] = Inr parsed \<and>
            (\<forall>key. key \<notin> db_key (model_class self) `
                        {k \<in> set (keys (model_class self)).
                           k \<in> fst ` set (concat default_filters)} \<longrightarrow>
                   dict_get filters key = dict_get parsed key)"
    by blast
qed

text \<open>
  A request that forges a filter on the linked field \<^verbatim>\<open>entity\<close>, against two default
  filters on that field: the second default filter is in the query.
\<close>

theorem default_filters_not_displaced_witness:
  "get_db_query plain_validators twelve_matching forged_example
       [[(''entity'', PStr ''e1'')], [(''entity'', PStr ''e2'')]] =
     Inr ([(''entity.$id'', [(''$eq'', Single (PStr ''e2''))]),
           (''status'', [(''$eq'', Single (PStr ''active''))])],
          forged_example\<lparr> total_n := 12, skip := 5, next_page := Some 3,
                           prev_page := Some 1, pages := 2 \<rparr>) \<and>
   dict_get [(''entity.$id'', [(''$eq'', Single (PStr ''e2''))]),
             (''status'', [(''$eq'', Single (PStr ''active''))])]
       (db_key (model_class forged_example) ''entity'') =
     Some [(''$eq'', Single (check_object_id plain_validators (PStr ''e2'')))]"
proof -
  let ?filters = "[(''entity.$id'', [(''$eq'', Single (PStr ''e2''))]),
                   (''status'', [(''$eq'', Single (PStr ''active''))])]"
  have r: "get_db_query plain_validators twelve_matching forged_example
             [[(''entity'', PStr ''e1'')], [(''entity'', PStr ''e2'')]] =
           Inr (?filters, forged_example\<lparr> total_n := 12, skip := 5, next_page := Some 3,
                                           prev_page := Some 1, pages := 2 \<rparr>)"
    by (simp add: get_db_query_def forged_example_def paging_example_def
        keys_def twelve_matching_def int_truediv_def FilterByAttribute_def operator_of_value_def
        all_operators_def plain_validators_def db_key_def dict_get_def)
  have d: "concat [[(''entity'', PStr ''e1'')], [(''entity'', PStr ''e2'')]] =
             [(''entity'', PStr ''e1'')] @ (''entity'', PStr ''e2'') # []"
    by simp
  have k: "''entity'' \<in> set (keys (model_class forged_example))"
    by (simp add: forged_example_def paging_example_def keys_def)
  have l: "\<forall>(k', v') \<in> set ([] :: (string \<times> pyval) list).
             k' \<in> set (keys (model_class forged_example)) \<longrightarrow>
             db_key (model_class forged_example) k' \<noteq> db_key (model_class forged_example) ''entity''"
    by simp
  from default_filters_not_displaced [OF r] have
    "\<And>before k v after.
        concat [[(''entity'', PStr ''e1'')], [(''entity'', PStr ''e2'')]] = before @ (k, v) # after \<Longrightarrow>
        k \<in> set (keys (model_class forged_example)) \<Longrightarrow>
        (\<forall>(k', v') \<in> set after.
           k' \<in> set (keys (model_class forged_example)) \<longrightarrow>
           db_key (model_class forged_example) k' \<noteq> db_key (model_class forged_example) k) \<Longrightarrow>
        dict_get ?filters (db_key (model_class forged_example) k) =
          Some [(''$eq'', Single (check_object_id plain_validators v))]"
    by blast
  from this [OF d k l] r show ?thesis by blast
qed

text \<open>
  The claim as stated speaks of every key of the default filters; a key that is no
  declared field is skipped. For a model without the field \<^verbatim>\<open>live_mode\<close>, the default
  filter \<^verbatim>\<open>{live_mode: False}\<close> leaves no trace in the query.
\<close>

theorem default_filter_dropped_counterexample:
  "get_db_query plain_validators twelve_matching paging_example [[(''live_mode'', PBool False)]] =
     Inr ([], paging_example\<lparr> total_n := 12, skip := 5, next_page := Some 3,
                              prev_page := Some 1, pages := 2 \<rparr>) \<and>
   dict_get ([] :: pyval db_query) ''live_mode'' = None"
  by (simp add: get_db_query_def paging_example_def example_model_def keys_def
      twelve_matching_def int_truediv_def dict_get_def)

section \<open>Discarded filter keys\<close>
















end
